theory Spec2Isabelle
  imports Complex_Main "HOL-Library.FSet" "HOL-Library.Multiset"
begin

section \<open>The condition and constraint engine of Backend/Models/constraint.py\<close>

text \<open>
  Units, courses and sequences are catalogue objects defined in other modules; the
  engine only compares them for equality and stores units in Python sets, so they are
  the type parameters \<open>'u\<close>, \<open>'c\<close> and \<open>'s\<close>. The weighted average mark is only ever
  compared with \<open>>=\<close>, so it is a parameter \<open>'w\<close> of class \<open>ord\<close>, of which nothing is
  assumed.

  An argument of type \<open>Iterable[Unit]\<close> is a list: a collection that can be iterated
  any number of times, possibly with repeated entries. A Python \<open>set\<close> is a finite set
  (\<open>'u fset\<close>), \<open>set(xs)\<close> is \<open>fset_of_list xs\<close>, \<open>len\<close> is \<open>fcard\<close>, and \<open>bool(s)\<close> of a set
  is \<open>s \<noteq> {||}\<close>. Python integers are unbounded: \<open>int\<close>.
\<close>

subsection \<open>Errors\<close>

datatype error = NotImplementedError

subsection \<open>The keyword arguments of a check\<close>

text \<open>
  The dictionary \<open>enrollment_info\<close> that \<open>Constraint.is_fulfilled\<close> builds and passes as
  \<open>**enrollment_info\<close> to every condition: always the same five keys.
\<close>

record ('u, 'c, 's, 'w) enrollment_info =
  units_completed :: "'u list"
  units_enrolled :: "'u list"
  enrolled_course :: 'c
  enrolled_sequence :: 's
  current_wam :: 'w

subsection \<open>Condition objects\<close>

text \<open>
  One constructor per class, holding the attributes that the class's \<open>__init__\<close> sets.
  \<open>Condition\<close> is the base class, which has no attributes.
\<close>

datatype ('u, 'c, 's, 'w) condition =
    Condition
  | MinimumNumberOfUnitsCondition (set_attr: "'u fset") (min_attr: int)
  | PrerequisitesFulfilledCondition (prerequisites: "'u fset")
  | CorequisitesFulfilledCondition (corequisites: "'u fset")
  | MutualExclusiveUnitsCondition (incompatible_units: "'u fset")
  | EnrolledInSequenceCondition (sequence: 's)
  | EnrolledInCourseCondition (course: 'c)
  | MinimumWamCondition (minimum_wam: 'w)

subsection \<open>Constructors\<close>

text \<open>
  Each \<open>__init__\<close> stores its arguments, the iterables converted with \<open>set(...)\<close>. None of
  them has a \<open>raise\<close>; the result type still has the error side, so that a constructor
  that rejected its arguments would be visible as \<open>Inl\<close>.
\<close>

definition MinimumNumberOfUnitsCondition_init ::
  "'u list \<Rightarrow> int \<Rightarrow> error + ('u, 'c, 's, 'w) condition" where
  "MinimumNumberOfUnitsCondition_init unit_set minimum_count =
     Inr (MinimumNumberOfUnitsCondition (fset_of_list unit_set) minimum_count)"

definition PrerequisitesFulfilledCondition_init ::
  "'u list \<Rightarrow> error + ('u, 'c, 's, 'w) condition" where
  "PrerequisitesFulfilledCondition_init prerequisite_units =
     Inr (PrerequisitesFulfilledCondition (fset_of_list prerequisite_units))"

definition CorequisitesFulfilledCondition_init ::
  "'u list \<Rightarrow> error + ('u, 'c, 's, 'w) condition" where
  "CorequisitesFulfilledCondition_init corequisite_units =
     Inr (CorequisitesFulfilledCondition (fset_of_list corequisite_units))"

definition MutualExclusiveUnitsCondition_init ::
  "'u list \<Rightarrow> error + ('u, 'c, 's, 'w) condition" where
  "MutualExclusiveUnitsCondition_init incompatible =
     Inr (MutualExclusiveUnitsCondition (fset_of_list incompatible))"




subsection \<open>The check methods\<close>

text \<open>
  Each method takes the attributes of \<open>self\<close> and then exactly the keyword parameters
  that its signature names; what arrives in \<open>**kwargs\<close> is never read.
\<close>

definition MinimumNumberOfUnitsCondition_check :: "'u fset \<Rightarrow> int \<Rightarrow> 'u list \<Rightarrow> bool" where
  "MinimumNumberOfUnitsCondition_check self_set self_min =
     (\<lambda>units_completed.
        let units_completed = fset_of_list units_completed
        in self_min \<le> int (fcard (self_set |\<inter>| units_completed)))"

definition PrerequisitesFulfilledCondition_check :: "'u fset \<Rightarrow> 'u list \<Rightarrow> bool" where
  "PrerequisitesFulfilledCondition_check self_prerequisites =
     (\<lambda>units_completed.
        let units_completed = fset_of_list units_completed
        in self_prerequisites |\<subseteq>| units_completed)"

definition CorequisitesFulfilledCondition_check ::
  "'u fset \<Rightarrow> 'u list \<Rightarrow> 'u list \<Rightarrow> bool" where
  "CorequisitesFulfilledCondition_check self_corequisites =
     (\<lambda>units_completed units_enrolled.
        let units_completed_or_enrolled =
              fset_of_list units_completed |\<union>| fset_of_list units_enrolled
        in self_corequisites |\<subseteq>| units_completed_or_enrolled)"

definition MutualExclusiveUnitsCondition_check ::
  "'u fset \<Rightarrow> 'u list \<Rightarrow> 'u list \<Rightarrow> bool" where
  "MutualExclusiveUnitsCondition_check self_incompatible_units =
     (\<lambda>units_completed units_enrolled.
        let units_completed_or_enrolled =
              fset_of_list units_completed |\<union>| fset_of_list units_enrolled
        in self_incompatible_units |\<inter>| units_completed_or_enrolled \<noteq> {||})"

definition EnrolledInSequenceCondition_check :: "'s \<Rightarrow> 's \<Rightarrow> bool" where
  "EnrolledInSequenceCondition_check self_sequence =
     (\<lambda>enrolled_sequence. self_sequence = enrolled_sequence)"

definition EnrolledInCourseCondition_check :: "'c \<Rightarrow> 'c \<Rightarrow> bool" where
  "EnrolledInCourseCondition_check self_course =
     (\<lambda>enrolled_course. self_course = enrolled_course)"

definition MinimumWamCondition_check :: "'w::ord \<Rightarrow> 'w \<Rightarrow> bool" where
  "MinimumWamCondition_check self_minimum_wam =
     (\<lambda>current_wam. current_wam \<ge> self_minimum_wam)"

text \<open>
  The call \<open>condition.check(**enrollment_info)\<close>: dispatch on the class of the object,
  each keyword parameter bound to the dictionary entry of its name. The base class
  raises.
\<close>

fun check ::
  "('u, 'c, 's, 'w::ord) condition \<Rightarrow> ('u, 'c, 's, 'w) enrollment_info \<Rightarrow> error + bool" where
  "check Condition kwargs = Inl NotImplementedError"
| "check (MinimumNumberOfUnitsCondition self_set self_min) kwargs =
     Inr (MinimumNumberOfUnitsCondition_check self_set self_min (units_completed kwargs))"
| "check (PrerequisitesFulfilledCondition self_prerequisites) kwargs =
     Inr (PrerequisitesFulfilledCondition_check self_prerequisites (units_completed kwargs))"
| "check (CorequisitesFulfilledCondition self_corequisites) kwargs =
     Inr (CorequisitesFulfilledCondition_check self_corequisites
            (units_completed kwargs) (units_enrolled kwargs))"
| "check (MutualExclusiveUnitsCondition self_incompatible_units) kwargs =
     Inr (MutualExclusiveUnitsCondition_check self_incompatible_units
            (units_completed kwargs) (units_enrolled kwargs))"
| "check (EnrolledInSequenceCondition self_sequence) kwargs =
     Inr (EnrolledInSequenceCondition_check self_sequence (enrolled_sequence kwargs))"
| "check (EnrolledInCourseCondition self_course) kwargs =
     Inr (EnrolledInCourseCondition_check self_course (enrolled_course kwargs))"
| "check (MinimumWamCondition self_minimum_wam) kwargs =
     Inr (MinimumWamCondition_check self_minimum_wam (current_wam kwargs))"

text \<open>
  The keyword parameters that each check method names in its signature, and what it
  means for two dictionaries to agree on such a parameter.
\<close>

datatype keyword =
    K_units_completed | K_units_enrolled | K_enrolled_course | K_enrolled_sequence
  | K_current_wam

fun signature_of :: "('u, 'c, 's, 'w) condition \<Rightarrow> keyword list" where
  "signature_of Condition = []"
| "signature_of (MinimumNumberOfUnitsCondition _ _) = [K_units_completed]"
| "signature_of (PrerequisitesFulfilledCondition _) = [K_units_completed]"
| "signature_of (CorequisitesFulfilledCondition _) = [K_units_completed, K_units_enrolled]"
| "signature_of (MutualExclusiveUnitsCondition _) = [K_units_completed, K_units_enrolled]"
| "signature_of (EnrolledInSequenceCondition _) = [K_enrolled_sequence]"
| "signature_of (EnrolledInCourseCondition _) = [K_enrolled_course]"
| "signature_of (MinimumWamCondition _) = [K_current_wam]"

fun agree_on ::
  "keyword \<Rightarrow> ('u, 'c, 's, 'w) enrollment_info \<Rightarrow> ('u, 'c, 's, 'w) enrollment_info \<Rightarrow> bool" where
  "agree_on K_units_completed x y = (units_completed x = units_completed y)"
| "agree_on K_units_enrolled x y = (units_enrolled x = units_enrolled y)"
| "agree_on K_enrolled_course x y = (enrolled_course x = enrolled_course y)"
| "agree_on K_enrolled_sequence x y = (enrolled_sequence x = enrolled_sequence y)"
| "agree_on K_current_wam x y = (current_wam x = current_wam y)"

text \<open>The expression \<open>Cls(...).check(**info)\<close>: an error of the constructor propagates.\<close>

definition construct_then_check ::
  "error + ('u, 'c, 's, 'w::ord) condition \<Rightarrow> ('u, 'c, 's, 'w) enrollment_info \<Rightarrow> error + bool" where
  "construct_then_check constructed kwargs =
     (case constructed of Inl e \<Rightarrow> Inl e | Inr condition \<Rightarrow> check condition kwargs)"

subsection \<open>Constraint\<close>

record ('u, 'c, 's, 'w) constraint =
  conditions :: "('u, 'c, 's, 'w) condition list"

definition Constraint_init :: "('u, 'c, 's, 'w) constraint" where
  "Constraint_init = \<lparr>conditions = []\<rparr>"

text \<open>
  The list comprehension \<open>[condition.check(**enrollment_info) for condition in ...]\<close>:
  the checks run in list order and the first exception ends the comprehension.
\<close>

fun check_each ::
  "('u, 'c, 's, 'w::ord) condition list \<Rightarrow> ('u, 'c, 's, 'w) enrollment_info \<Rightarrow> error + bool list" where
  "check_each [] enrollment_info = Inr []"
| "check_each (condition # rest) enrollment_info =
     (case check condition enrollment_info of
        Inl e \<Rightarrow> Inl e
      | Inr b \<Rightarrow>
          (case check_each rest enrollment_info of
             Inl e \<Rightarrow> Inl e
           | Inr bs \<Rightarrow> Inr (b # bs)))"

text \<open>The builtin \<open>all\<close> on a list of booleans: false at the first false element.\<close>

fun all_builtin :: "bool list \<Rightarrow> bool" where
  "all_builtin [] = True"
| "all_builtin (b # bs) = (if b then all_builtin bs else False)"

definition is_fulfilled ::
  "('u, 'c, 's, 'w::ord) constraint \<Rightarrow> 'u list \<Rightarrow> 'u list \<Rightarrow> 'c \<Rightarrow> 's \<Rightarrow> 'w \<Rightarrow> error + bool" where
  "is_fulfilled self =
     (\<lambda>units_completed units_enrolled enrolled_course enrolled_sequence current_wam.
        let enrollment_info =
              \<lparr>units_completed = units_completed,
               units_enrolled = units_enrolled,
               enrolled_course = enrolled_course,
               enrolled_sequence = enrolled_sequence,
               current_wam = current_wam\<rparr>
        in case check_each (conditions self) enrollment_info of
             Inl e \<Rightarrow> Inl e
           | Inr results \<Rightarrow> Inr (all_builtin results))"

section \<open>Properties\<close>

subsection \<open>Python sets as finite sets\<close>

lemma fset_nonempty_iff: "(A \<noteq> {||}) = (fset A \<noteq> {})"
  using fset_inject [of A "{||}"] by simp

lemma fset_of_list_remdups: "fset_of_list (remdups xs) = fset_of_list xs"
  by (simp add: fset_of_list.abs_eq)

lemma MinimumNumberOfUnitsCondition_check_iff:
  "MinimumNumberOfUnitsCondition_check R k uc = (k \<le> int (card (fset R \<inter> set uc)))"
  by (simp add: MinimumNumberOfUnitsCondition_check_def fcard.rep_eq fset_of_list.rep_eq)

lemma CorequisitesFulfilledCondition_check_iff:
  "CorequisitesFulfilledCondition_check C uc ue = (fset C \<subseteq> set uc \<union> set ue)"
  by (simp add: CorequisitesFulfilledCondition_check_def less_eq_fset.rep_eq
      fset_of_list.rep_eq)

lemma MutualExclusiveUnitsCondition_check_iff:
  "MutualExclusiveUnitsCondition_check X uc ue = (fset X \<inter> (set uc \<union> set ue) \<noteq> {})"
  by (simp add: MutualExclusiveUnitsCondition_check_def fset_nonempty_iff fset_of_list.rep_eq)

subsection \<open>The comprehension over the conditions\<close>






subsection \<open>MutualExclusiveUnitsCondition\<close>

text \<open>
  Claim C1. The class is documented as fulfilled when none of the incompatible units has
  been completed or is being completed. The method returns the truth value of the
  intersection instead: with \<open>X = {A}\<close>, \<open>units_completed = [A]\<close> and
  \<open>units_enrolled = []\<close> the intersection of \<open>X\<close> with the completed and enrolled units
  is not empty, and the check returns \<open>True\<close>.
\<close>

theorem mutual_exclusion_true_on_completed_incompatible_unit:
  "construct_then_check (MutualExclusiveUnitsCondition_init [''A''])
     \<lparr>units_completed = [''A''], units_enrolled = [], enrolled_course = (0::nat),
      enrolled_sequence = (0::nat), current_wam = (0::real)\<rparr> = Inr True
   \<and> set [''A''] \<inter> (set [''A''] \<union> set []) \<noteq> {}"
  by (simp add: construct_then_check_def MutualExclusiveUnitsCondition_init_def
      MutualExclusiveUnitsCondition_check_def)

text \<open>
  Claim C2. For every reference set \<open>X\<close> and every context, the check of
  \<open>MutualExclusiveUnitsCondition\<close> returns true exactly when \<open>X\<close> meets the union of
  the completed and the enrolled units. With \<open>X = {A}\<close> and \<open>A\<close> completed it returns
  true; with nothing completed and nothing enrolled it returns false.
\<close>

theorem mutual_exclusive_check_signals_violation:
  "check (MutualExclusiveUnitsCondition X) info =
     Inr (fset X \<inter> (set (units_completed info) \<union> set (units_enrolled info)) \<noteq> {})
   \<and> check (MutualExclusiveUnitsCondition {|A|})
        (info\<lparr>units_completed := [A], units_enrolled := []\<rparr>) = Inr True
   \<and> check (MutualExclusiveUnitsCondition X)
        (info\<lparr>units_completed := [], units_enrolled := []\<rparr>) = Inr False"
  by (simp add: MutualExclusiveUnitsCondition_check_iff)

subsection \<open>Construction\<close>



subsection \<open>Constraint.is_fulfilled\<close>



text \<open>
  Claim C5. A constraint with no conditions is fulfilled in every context.
\<close>

theorem empty_constraint_is_fulfilled:
  "conditions self = [] \<Longrightarrow> is_fulfilled self uc ue ec es w = Inr True"
  by (simp add: is_fulfilled_def)

text \<open>A freshly constructed constraint has no conditions.\<close>

theorem empty_constraint_is_fulfilled_witness:
  "conditions (Constraint_init :: (string, nat, nat, real) constraint) = []
   \<and> is_fulfilled (Constraint_init :: (string, nat, nat, real) constraint)
       [''A''] [''B''] 1 2 50 = Inr True"
  using empty_constraint_is_fulfilled
    [of "Constraint_init :: (string, nat, nat, real) constraint" "[''A'']" "[''B'']" 1 2 50]
  by (simp add: Constraint_init_def)

subsection \<open>What a check reads\<close>

text \<open>
  Claim C6. Two contexts that agree on the keyword parameters named in the signature of
  a condition's check give the same result, whatever their other entries are. In
  particular the check of \<open>MinimumNumberOfUnitsCondition\<close> depends only on
  \<open>units_completed\<close> and that of \<open>MinimumWamCondition\<close> only on \<open>current_wam\<close>.
\<close>

theorem check_depends_only_on_declared_keywords:
  "((\<forall>k \<in> set (signature_of c). agree_on k x y) \<longrightarrow> check c x = check c y)
   \<and> (units_completed x = units_completed y \<longrightarrow>
        check (MinimumNumberOfUnitsCondition R n) x = check (MinimumNumberOfUnitsCondition R n) y)
   \<and> (current_wam x = current_wam y \<longrightarrow>
        check (MinimumWamCondition m) x = check (MinimumWamCondition m) y)"
proof -
  have "(\<forall>k \<in> set (signature_of c). agree_on k x y) \<longrightarrow> check c x = check c y"
    by (cases c) simp_all
  then show ?thesis by simp
qed

text \<open>
  Two contexts with the same completed units and different entries everywhere else, and
  two with the same average and different entries everywhere else.
\<close>

theorem check_depends_only_on_declared_keywords_witness:
  "signature_of (MinimumNumberOfUnitsCondition {|''A'', ''B'', ''C''|} 2
        :: (string, nat, nat, real) condition) = [K_units_completed]
   \<and> agree_on K_units_completed
        \<lparr>units_completed = [''A'', ''B''], units_enrolled = [], enrolled_course = 0::nat,
         enrolled_sequence = 0::nat, current_wam = 50::real\<rparr>
        \<lparr>units_completed = [''A'', ''B''], units_enrolled = [''C''], enrolled_course = 1,
         enrolled_sequence = 2, current_wam = 80\<rparr>
   \<and> check (MinimumNumberOfUnitsCondition {|''A'', ''B'', ''C''|} 2)
        \<lparr>units_completed = [''A'', ''B''], units_enrolled = [], enrolled_course = 0::nat,
         enrolled_sequence = 0::nat, current_wam = 50::real\<rparr>
     = check (MinimumNumberOfUnitsCondition {|''A'', ''B'', ''C''|} 2)
        \<lparr>units_completed = [''A'', ''B''], units_enrolled = [''C''], enrolled_course = 1,
         enrolled_sequence = 2, current_wam = 80\<rparr>
   \<and> check (MinimumWamCondition (65::real))
        \<lparr>units_completed = [''A''], units_enrolled = [], enrolled_course = 0::nat,
         enrolled_sequence = 0::nat, current_wam = 70\<rparr>
     = check (MinimumWamCondition (65::real))
        \<lparr>units_completed = [], units_enrolled = [''B''], enrolled_course = 1::nat,
         enrolled_sequence = 2::nat, current_wam = 70\<rparr>"
  using check_depends_only_on_declared_keywords
    [of "MinimumNumberOfUnitsCondition {|''A'', ''B'', ''C''|} 2"
        "\<lparr>units_completed = [''A'', ''B''], units_enrolled = [], enrolled_course = 0::nat,
         enrolled_sequence = 0::nat, current_wam = 50::real\<rparr>"
        "\<lparr>units_completed = [''A'', ''B''], units_enrolled = [''C''], enrolled_course = 1,
         enrolled_sequence = 2, current_wam = 80\<rparr>"]
    check_depends_only_on_declared_keywords
    [of "MinimumWamCondition (65::real)"
        "\<lparr>units_completed = [''A''], units_enrolled = [], enrolled_course = 0::nat,
         enrolled_sequence = 0::nat, current_wam = 70\<rparr>"
        "\<lparr>units_completed = [], units_enrolled = [''B''], enrolled_course = 1,
         enrolled_sequence = 2, current_wam = 70\<rparr>"]
  by simp

subsection \<open>MinimumNumberOfUnitsCondition\<close>

text \<open>
  Claim C7. For every reference set \<open>R\<close>, threshold \<open>k\<close> and context, the check of
  \<open>MinimumNumberOfUnitsCondition(R, k)\<close> holds exactly when at least \<open>k\<close> units of \<open>R\<close>
  are among the completed units. With \<open>R = {A, B, C}\<close> and \<open>k = 2\<close> it is true when
  \<open>A\<close> and \<open>B\<close> are completed and false when only \<open>A\<close> is.
\<close>

theorem minimum_number_of_units_check_iff:
  "check (MinimumNumberOfUnitsCondition R k) info =
     Inr (k \<le> int (card (fset R \<inter> set (units_completed info))))
   \<and> check (MinimumNumberOfUnitsCondition {|''A'', ''B'', ''C''|} 2)
        (info'\<lparr>units_completed := [''A'', ''B'']\<rparr>) = Inr True
   \<and> check (MinimumNumberOfUnitsCondition {|''A'', ''B'', ''C''|} 2)
        (info'\<lparr>units_completed := [''A'']\<rparr>) = Inr False"
  by (simp add: MinimumNumberOfUnitsCondition_check_iff)

text \<open>
  Claim C10. A \<open>MinimumNumberOfUnitsCondition\<close> whose minimum count is zero or negative
  is satisfied in every context, whatever the reference set and the completed units.
\<close>

theorem nonpositive_minimum_count_always_satisfied:
  "k \<le> 0 \<Longrightarrow> check (MinimumNumberOfUnitsCondition R k) info = Inr True"
  by (simp add: MinimumNumberOfUnitsCondition_check_def)

text \<open>A minimum count of \<open>-1\<close>, nothing completed.\<close>

theorem nonpositive_minimum_count_always_satisfied_witness:
  "(- 1 :: int) \<le> 0
   \<and> check (MinimumNumberOfUnitsCondition {|''A'', ''B''|} (- 1))
       \<lparr>units_completed = [], units_enrolled = [], enrolled_course = 0::nat,
        enrolled_sequence = 0::nat, current_wam = 0::real\<rparr> = Inr True"
  using nonpositive_minimum_count_always_satisfied
    [of "- 1" "{|''A'', ''B''|}"
        "\<lparr>units_completed = [], units_enrolled = [], enrolled_course = 0::nat,
        enrolled_sequence = 0::nat, current_wam = 0::real\<rparr>"]
  by simp

subsection \<open>CorequisitesFulfilledCondition\<close>

text \<open>
  Claim C8. For every reference set \<open>C\<close> and every context, the check of
  \<open>CorequisitesFulfilledCondition\<close> holds exactly when every unit of \<open>C\<close> is completed
  or enrolled. Completed and enrolled units count alike: exchanging the two
  collections does not change the result.
\<close>

theorem corequisites_check_iff:
  "check (CorequisitesFulfilledCondition C) info =
     Inr (fset C \<subseteq> set (units_completed info) \<union> set (units_enrolled info))
   \<and> check (CorequisitesFulfilledCondition C)
        (info\<lparr>units_completed := units_enrolled info, units_enrolled := units_completed info\<rparr>)
     = check (CorequisitesFulfilledCondition C) info"
  by (auto simp add: CorequisitesFulfilledCondition_check_iff)

subsection \<open>Repeated entries in a constructor argument\<close>

text \<open>
  Claim C9. For each of the four classes with a set-valued parameter, an object built
  from an iterable with repeated entries evaluates, in every context, as the object
  built from the same entries with the repetitions removed.
\<close>

theorem duplicate_entries_do_not_change_evaluation:
  "construct_then_check (MinimumNumberOfUnitsCondition_init xs k) info
     = construct_then_check (MinimumNumberOfUnitsCondition_init (remdups xs) k) info
   \<and> construct_then_check (PrerequisitesFulfilledCondition_init xs) info
     = construct_then_check (PrerequisitesFulfilledCondition_init (remdups xs)) info
   \<and> construct_then_check (CorequisitesFulfilledCondition_init xs) info
     = construct_then_check (CorequisitesFulfilledCondition_init (remdups xs)) info
   \<and> construct_then_check (MutualExclusiveUnitsCondition_init xs) info
     = construct_then_check (MutualExclusiveUnitsCondition_init (remdups xs)) info"
  by (simp add: MinimumNumberOfUnitsCondition_init_def PrerequisitesFulfilledCondition_init_def
      CorequisitesFulfilledCondition_init_def MutualExclusiveUnitsCondition_init_def
      fset_of_list_remdups)

end
